theory Spec2Isabelle
  imports Complex_Main
begin

section \<open>Mouth-breathing detector: geometry, debounce and sound alert\<close>

text \<open>
  The development embeds two pieces of the repository:
  \<^item> \<^verbatim>\<open>src/utils/geometry.js\<close>: \<^verbatim>\<open>calculateDistance\<close> and \<^verbatim>\<open>isMouthOpen\<close>;
  \<^item> the \<^verbatim>\<open>onResults\<close> callback of the \<^verbatim>\<open>BreathingDetector\<close> component (in the source
    tree it follows \<^verbatim>\<open>playAlertSound\<close> in \<^verbatim>\<open>src/utils/sound.js\<close>): the "State Change
    Logic with Delay" and the "Sound Alert Logic".

  JavaScript numbers are modelled as follows. The landmark coordinates and the threshold
  are values of a type \<open>'n\<close> of numbers, and the arithmetic \<^verbatim>\<open>isMouthOpen\<close> does on them
  (subtraction, \<^verbatim>\<open>Math.pow(_, 2)\<close>, addition, \<^verbatim>\<open>Math.sqrt\<close>, division, \<^verbatim>\<open>>\<close> and
  \<^verbatim>\<open>=== 0\<close>) is a parameter of the model: the IEEE doubles of a JavaScript engine, with
  their rounding, NaN and the infinities, are one such arithmetic, the exact real numbers
  another. Timestamps are the integer milliseconds of \<^verbatim>\<open>Date.now()\<close>, type \<^typ>\<open>int\<close>;
  the source divides a difference of timestamps by 1000 to get seconds and compares with
  the delay, and the model does the same in \<^typ>\<open>real\<close>.
\<close>

subsection \<open>geometry.js\<close>

text \<open>
  A landmark \<^verbatim>\<open>{x, y, z}\<close>. The fields are named \<open>p_x\<close>, \<open>p_y\<close>, \<open>p_z\<close>, since a
  record field is a global constant and \<open>x\<close>, \<open>y\<close>, \<open>z\<close> are wanted as variables.
\<close>

record 'n Point3D =
  p_x :: 'n
  p_y :: 'n
  p_z :: 'n

text \<open>
  The landmark array of MediaPipe Face Mesh. The source only indexes it
  (\<^verbatim>\<open>landmarks[13]\<close>), and an index that is out of range or holds \<^verbatim>\<open>undefined\<close> or
  \<^verbatim>\<open>null\<close> reads as a falsy value: the array is a partial map from indices to points.
  The argument \<^verbatim>\<open>landmarks\<close> itself may be \<^verbatim>\<open>null\<close> or \<^verbatim>\<open>undefined\<close>: \<open>None\<close>.
\<close>

type_synonym 'n LandmarkFrame = "nat \<rightharpoonup> 'n Point3D"

text \<open>
  The number operations the two functions use, as the engine provides them:
  \<^verbatim>\<open>a - b\<close>, \<^verbatim>\<open>Math.pow(a, 2)\<close>, \<^verbatim>\<open>a + b\<close>, \<^verbatim>\<open>Math.sqrt(a)\<close>, \<^verbatim>\<open>a / b\<close>, \<^verbatim>\<open>a > b\<close> and
  \<^verbatim>\<open>a === 0\<close>. Nothing is assumed of them; a theorem that needs a property of the
  arithmetic states it as a hypothesis.
\<close>

record 'n Arith =
  num_sub :: "'n \<Rightarrow> 'n \<Rightarrow> 'n"
  num_pow2 :: "'n \<Rightarrow> 'n"
  num_add :: "'n \<Rightarrow> 'n \<Rightarrow> 'n"
  num_sqrt :: "'n \<Rightarrow> 'n"
  num_div :: "'n \<Rightarrow> 'n \<Rightarrow> 'n"
  num_gt :: "'n \<Rightarrow> 'n \<Rightarrow> bool"
  num_is_zero :: "'n \<Rightarrow> bool"

definition calculateDistance :: "'n Arith \<Rightarrow> 'n Point3D \<Rightarrow> 'n Point3D \<Rightarrow> 'n" where
  "calculateDistance ar p1 p2 =
     num_sqrt ar
       (num_add ar
          (num_add ar (num_pow2 ar (num_sub ar (p_x p1) (p_x p2)))
                      (num_pow2 ar (num_sub ar (p_y p1) (p_y p2))))
          (num_pow2 ar (num_sub ar (p_z p1) (p_z p2))))"

text \<open>
  \<^verbatim>\<open>isMouthOpen\<close>, instrumented: besides the boolean it returns the list of the divisors
  of every division the call evaluates (the source has one division, \<^verbatim>\<open>mouthDistance /
  faceHeight\<close>, reached only on the last path). The four early returns of the source
  are the branches that return \<open>False\<close> with no division. The default value 0.05 of
  \<^verbatim>\<open>threshold\<close> is not modelled: the only caller passes the threshold.
\<close>

definition isMouthOpen_traced ::
  "'n Arith \<Rightarrow> 'n LandmarkFrame option \<Rightarrow> 'n \<Rightarrow> bool \<times> 'n list" where
  "isMouthOpen_traced ar landmarks threshold =
     (case landmarks of
        None \<Rightarrow> (False, [])
      | Some lm \<Rightarrow>
          (case lm 13 of None \<Rightarrow> (False, []) | Some upperLipBottom \<Rightarrow>
          (case lm 14 of None \<Rightarrow> (False, []) | Some lowerLipTop \<Rightarrow>
          (case lm 10 of None \<Rightarrow> (False, []) | Some forehead \<Rightarrow>
          (case lm 152 of None \<Rightarrow> (False, []) | Some chin \<Rightarrow>
             (let mouthDistance = calculateDistance ar upperLipBottom lowerLipTop;
                  faceHeight = calculateDistance ar forehead chin
              in if num_is_zero ar faceHeight then (False, [])
                 else (let ratio = num_div ar mouthDistance faceHeight
                       in (num_gt ar ratio threshold, [faceHeight]))))))))"

definition isMouthOpen :: "'n Arith \<Rightarrow> 'n LandmarkFrame option \<Rightarrow> 'n \<Rightarrow> bool" where
  "isMouthOpen ar landmarks threshold = fst (isMouthOpen_traced ar landmarks threshold)"

definition isMouthOpen_divisors :: "'n Arith \<Rightarrow> 'n LandmarkFrame option \<Rightarrow> 'n \<Rightarrow> 'n list" where
  "isMouthOpen_divisors ar landmarks threshold = snd (isMouthOpen_traced ar landmarks threshold)"

text \<open>
  The arithmetic of the exact real numbers. It is not the arithmetic of doubles (it does
  not round); it serves to run the definitions on concrete frames. The frames of these
  runs have differences, squares, roots and quotients that are exact in doubles too
  (gap and height 0, 1 or 4), or are classified by a wide margin (ratio 0.08 against the
  threshold 0.05).
\<close>

definition exactArith :: "real Arith" where
  "exactArith =
     \<lparr>num_sub = (\<lambda>a b. a - b), num_pow2 = (\<lambda>a. a\<^sup>2), num_add = (\<lambda>a b. a + b),
      num_sqrt = sqrt, num_div = (\<lambda>a b. a / b), num_gt = (\<lambda>a b. a > b),
      num_is_zero = (\<lambda>a. a = 0)\<rparr>"

subsection \<open>The onResults callback\<close>

text \<open>
  The state the callback reads and writes: the React state \<^verbatim>\<open>isMouthOpenState\<close> (the
  committed, displayed state) and the three refs. \<^verbatim>\<open>setIsMouthOpenState v\<close> does not
  change the \<^verbatim>\<open>isMouthOpenState\<close> the running callback sees (that is a constant of
  the closure); the new value is the state of the next render, so of the next frame.
  The model is one call of the callback per frame, each call closed over the state the
  previous call left: one live callback, re-rendered between two frames. (The effect
  that registers the callback runs again whenever the callback changes and has no
  cleanup; callbacks of earlier renders that keep running are outside the model.)
\<close>

record DetectorState =
  isMouthOpenState :: bool
  pendingState :: bool
  lastStateChangeTime :: int
  lastSoundTime :: int

text \<open>
  The values of \<^verbatim>\<open>useState\<close> and \<^verbatim>\<open>useRef\<close> at mount; \<open>t0\<close> is the \<^verbatim>\<open>Date.now()\<close> of
  the mount. \<^verbatim>\<open>lastSoundTime\<close> starts at the timestamp 0.
\<close>

definition initialState :: "int \<Rightarrow> DetectorState" where
  "initialState t0 =
     \<lparr>isMouthOpenState = False, pendingState = False,
      lastStateChangeTime = t0, lastSoundTime = 0\<rparr>"

text \<open>The settings the callback closes over (the sliders and the toggle).\<close>

record 'n Settings =
  threshold :: 'n
  delaySeconds :: real
  soundEnabled :: bool

text \<open>
  "State Change Logic with Delay": \<open>currentState\<close> is the raw classification of the
  frame, \<open>now\<close> its timestamp.
\<close>

definition stateChangeLogic :: "real \<Rightarrow> bool \<Rightarrow> int \<Rightarrow> DetectorState \<Rightarrow> DetectorState" where
  "stateChangeLogic delay currentState now s =
     (if currentState \<noteq> isMouthOpenState s then
        (if currentState = pendingState s then
           (let timeInPendingState = real_of_int (now - lastStateChangeTime s) / 1000
            in if timeInPendingState \<ge> delay
               then s\<lparr>isMouthOpenState := currentState\<rparr>
               else s)
         else s\<lparr>pendingState := currentState, lastStateChangeTime := now\<rparr>)
      else s\<lparr>pendingState := currentState, lastStateChangeTime := now\<rparr>)"

text \<open>
  "Sound Alert Logic": \<open>mouthOpen\<close> is the \<^verbatim>\<open>isMouthOpenState\<close> of the closure, \<open>s\<close> the
  state the refs are in. The result pairs the state with whether \<^verbatim>\<open>playAlertSound\<close>
  was called. The cooldown is the literal 60 of the source.
\<close>

definition soundAlertLogic :: "bool \<Rightarrow> bool \<Rightarrow> int \<Rightarrow> DetectorState \<Rightarrow> DetectorState \<times> bool" where
  "soundAlertLogic mouthOpen enabled now s =
     (if mouthOpen \<and> enabled then
        (let timeSinceLastSound = real_of_int (now - lastSoundTime s) / 1000
         in if timeSinceLastSound \<ge> 60
            then (s\<lparr>lastSoundTime := now\<rparr>, True)
            else (s, False))
      else (s, False))"

text \<open>
  \<^verbatim>\<open>results.multiFaceLandmarks\<close>: absent, or a list of landmark arrays.
  \<^verbatim>\<open>setIsLoading(false)\<close> only hides the loading overlay and is left out.
\<close>

definition onResults ::
  "'n Arith \<Rightarrow> 'n Settings \<Rightarrow> int \<Rightarrow> 'n LandmarkFrame option list option \<Rightarrow> DetectorState
     \<Rightarrow> DetectorState \<times> bool" where
  "onResults ar cfg now multiFaceLandmarks s =
     (case multiFaceLandmarks of
        None \<Rightarrow> (s, False)
      | Some [] \<Rightarrow> (s, False)
      | Some (landmarks # _) \<Rightarrow>
          (let currentState = isMouthOpen ar landmarks (threshold cfg);
               s1 = stateChangeLogic (delaySeconds cfg) currentState now s
           in soundAlertLogic (isMouthOpenState s) (soundEnabled cfg) now s1))"

text \<open>Runs of frames: the states after each frame, and the last one.\<close>

fun debounceRun :: "real \<Rightarrow> (bool \<times> int) list \<Rightarrow> DetectorState \<Rightarrow> DetectorState" where
  "debounceRun delay [] s = s"
| "debounceRun delay ((raw, now) # fs) s = debounceRun delay fs (stateChangeLogic delay raw now s)"


text \<open>
  Runs of the whole callback with fixed arithmetic and settings: each frame is a timestamp and the
  \<^verbatim>\<open>multiFaceLandmarks\<close> of the result; the trace pairs the state after each call with
  whether that call played the sound.
\<close>

fun onResultsTrace ::
  "'n Arith \<Rightarrow> 'n Settings \<Rightarrow> (int \<times> 'n LandmarkFrame option list option) list
     \<Rightarrow> DetectorState \<Rightarrow> (DetectorState \<times> bool) list" where
  "onResultsTrace ar cfg [] s = []"
| "onResultsTrace ar cfg ((now, res) # fs) s =
     onResults ar cfg now res s # onResultsTrace ar cfg fs (fst (onResults ar cfg now res s))"

fun onResultsRun ::
  "'n Arith \<Rightarrow> 'n Settings \<Rightarrow> (int \<times> 'n LandmarkFrame option list option) list
     \<Rightarrow> DetectorState \<Rightarrow> DetectorState" where
  "onResultsRun ar cfg [] s = s"
| "onResultsRun ar cfg ((now, res) # fs) s =
     onResultsRun ar cfg fs (fst (onResults ar cfg now res s))"

text \<open>
  Runs of the sound alert logic alone: each frame is the committed state the closure
  holds and the timestamp; the result lists, frame by frame, whether the sound played.
\<close>

fun soundAlertTrace :: "bool \<Rightarrow> (bool \<times> int) list \<Rightarrow> DetectorState \<Rightarrow> bool list" where
  "soundAlertTrace enabled [] s = []"
| "soundAlertTrace enabled ((mouthOpen, now) # fs) s =
     snd (soundAlertLogic mouthOpen enabled now s)
       # soundAlertTrace enabled fs (fst (soundAlertLogic mouthOpen enabled now s))"

subsection \<open>Inputs used in the statements\<close>

text \<open>
  A landmark array with the four landmarks on the y axis: the lips \<open>gap\<close> apart, forehead
  and chin \<open>height\<close> apart. Every other index is absent.
\<close>

definition faceFrame :: "real \<Rightarrow> real \<Rightarrow> real LandmarkFrame" where
  "faceFrame gap height =
     [13 \<mapsto> \<lparr>p_x = 0, p_y = 0, p_z = 0\<rparr>, 14 \<mapsto> \<lparr>p_x = 0, p_y = gap, p_z = 0\<rparr>,
      10 \<mapsto> \<lparr>p_x = 0, p_y = 0, p_z = 0\<rparr>, 152 \<mapsto> \<lparr>p_x = 0, p_y = height, p_z = 0\<rparr>]"



subsection \<open>An invariant of the state change logic\<close>


section \<open>Geometry\<close>

lemma calculateDistance_y_axis:
  "calculateDistance exactArith \<lparr>p_x = 0, p_y = a, p_z = 0\<rparr> \<lparr>p_x = 0, p_y = b, p_z = 0\<rparr>
     = \<bar>a - b\<bar>"
  by (simp add: calculateDistance_def exactArith_def)

lemma calculateDistance_exactArith:
  "calculateDistance exactArith p q
     = sqrt ((p_x p - p_x q)\<^sup>2 + (p_y p - p_y q)\<^sup>2 + (p_z p - p_z q)\<^sup>2)"
  by (simp add: calculateDistance_def exactArith_def)

lemma isMouthOpen_faceFrame:
  "isMouthOpen exactArith (Some (faceFrame gap height)) thr
     \<longleftrightarrow> height \<noteq> 0 \<and> thr < \<bar>gap\<bar> / \<bar>height\<bar>"
  by (simp add: isMouthOpen_def isMouthOpen_traced_def faceFrame_def calculateDistance_y_axis
      Let_def) (simp add: exactArith_def)

lemma isMouthOpen_divisors_faceFrame:
  "isMouthOpen_divisors exactArith (Some (faceFrame gap height)) thr
     = (if height = 0 then [] else [\<bar>height\<bar>])"
  by (simp add: isMouthOpen_divisors_def isMouthOpen_traced_def faceFrame_def
      calculateDistance_y_axis Let_def) (simp add: exactArith_def)

text \<open>
  C7. A frame that is wholly absent, or in which any of the landmarks 13 (upper lip
  bottom), 14 (lower lip top), 10 (forehead) and 152 (chin) is absent, is classified as
  closed, whatever the threshold and the arithmetic.
\<close>

theorem C7_missing_landmark_closed:
  "landmarks = None \<or>
   (\<exists>lm. landmarks = Some lm \<and> (lm 13 = None \<or> lm 14 = None \<or> lm 10 = None \<or> lm 152 = None))
   \<Longrightarrow> isMouthOpen ar landmarks thr = False"
  by (auto simp: isMouthOpen_def isMouthOpen_traced_def split: option.splits)

theorem C7_missing_landmark_closed_witness:
  "((faceFrame 1 1)(152 := None)) 152 = None
   \<and> isMouthOpen exactArith (Some ((faceFrame 1 1)(152 := None))) 0.05 = False
   \<and> isMouthOpen exactArith (Some (faceFrame 1 1)) 0.05 = True
   \<and> isMouthOpen exactArith None 0.05 = False"
  using C7_missing_landmark_closed [of "Some ((faceFrame 1 1)(152 := None))" exactArith "0.05"]
    C7_missing_landmark_closed [of None exactArith "0.05"]
  by (simp add: isMouthOpen_faceFrame)

text \<open>
  C8. When forehead and chin are the same point, the frame is classified as closed
  whatever the mouth gap and the threshold: in every arithmetic in which the difference
  of each coordinate with itself is a zero \<open>z\<close> that \<^verbatim>\<open>Math.pow(_, 2)\<close>, addition and
  \<^verbatim>\<open>Math.sqrt\<close> preserve and \<^verbatim>\<open>=== 0\<close> accepts, and so in exact arithmetic. And no call
  divides by zero, whatever the arithmetic: no divisor of a division that a call
  evaluates passes the test \<^verbatim>\<open>=== 0\<close>.
\<close>

theorem C8_zero_face_height_closed:
  "(lm 10 = Some forehead \<and> lm 152 = Some chin \<and> forehead = chin
      \<and> num_sub ar (p_x chin) (p_x chin) = z \<and> num_sub ar (p_y chin) (p_y chin) = z
      \<and> num_sub ar (p_z chin) (p_z chin) = z
      \<and> num_pow2 ar z = z \<and> num_add ar z z = z \<and> num_sqrt ar z = z \<and> num_is_zero ar z
      \<longrightarrow> isMouthOpen ar (Some lm) thr = False)
   \<and> (lmr 10 = Some foreheadr \<and> lmr 152 = Some chinr \<and> foreheadr = chinr
      \<longrightarrow> isMouthOpen exactArith (Some lmr) thrr = False)
   \<and> list_all (\<lambda>d. \<not> num_is_zero ar d) (isMouthOpen_divisors ar landmarks thr)
   \<and> 0 \<notin> set (isMouthOpen_divisors exactArith landmarksr thrr)"
proof (intro conjI impI)
  assume "lm 10 = Some forehead \<and> lm 152 = Some chin \<and> forehead = chin
      \<and> num_sub ar (p_x chin) (p_x chin) = z \<and> num_sub ar (p_y chin) (p_y chin) = z
      \<and> num_sub ar (p_z chin) (p_z chin) = z
      \<and> num_pow2 ar z = z \<and> num_add ar z z = z \<and> num_sqrt ar z = z \<and> num_is_zero ar z"
  then show "isMouthOpen ar (Some lm) thr = False"
    by (simp add: isMouthOpen_def isMouthOpen_traced_def calculateDistance_def Let_def
        split: option.splits)
next
  assume "lmr 10 = Some foreheadr \<and> lmr 152 = Some chinr \<and> foreheadr = chinr"
  then show "isMouthOpen exactArith (Some lmr) thrr = False"
    by (simp add: isMouthOpen_def isMouthOpen_traced_def calculateDistance_exactArith Let_def
        split: option.splits) (simp add: exactArith_def)
next
  show "list_all (\<lambda>d. \<not> num_is_zero ar d) (isMouthOpen_divisors ar landmarks thr)"
    by (simp add: isMouthOpen_divisors_def isMouthOpen_traced_def Let_def split: option.splits)
next
  show "0 \<notin> set (isMouthOpen_divisors exactArith landmarksr thrr)"
    by (auto simp: isMouthOpen_divisors_def isMouthOpen_traced_def Let_def exactArith_def
        split: option.splits)
qed

theorem C8_zero_face_height_closed_witness:
  "faceFrame 1 0 10 = Some \<lparr>p_x = 0, p_y = 0, p_z = 0\<rparr>
   \<and> faceFrame 1 0 152 = Some \<lparr>p_x = 0, p_y = 0, p_z = 0\<rparr>
   \<and> num_sub exactArith 0 0 = 0 \<and> num_pow2 exactArith 0 = 0 \<and> num_add exactArith 0 0 = 0
   \<and> num_sqrt exactArith 0 = 0 \<and> num_is_zero exactArith 0
   \<and> isMouthOpen exactArith (Some (faceFrame 1 0)) 0.05 = False
   \<and> isMouthOpen_divisors exactArith (Some (faceFrame 0.08 1)) 0.05 = [1]
   \<and> list_all (\<lambda>d. \<not> num_is_zero exactArith d)
        (isMouthOpen_divisors exactArith (Some (faceFrame 0.08 1)) 0.05)
   \<and> 0 \<notin> set (isMouthOpen_divisors exactArith (Some (faceFrame 0.08 1)) 0.05)"
  using C8_zero_face_height_closed [where lm = "faceFrame 1 0"
      and forehead = "\<lparr>p_x = 0, p_y = 0, p_z = 0\<rparr>" and chin = "\<lparr>p_x = 0, p_y = 0, p_z = 0\<rparr>"
      and ar = exactArith and z = 0 and thr = "0.05"
      and lmr = "faceFrame 1 0" and foreheadr = "\<lparr>p_x = 0, p_y = 0, p_z = 0\<rparr>"
      and chinr = "\<lparr>p_x = 0, p_y = 0, p_z = 0\<rparr>" and thrr = "0.05"
      and landmarks = "Some (faceFrame 0.08 1)" and landmarksr = "Some (faceFrame 0.08 1)"]
  by (simp add: isMouthOpen_divisors_faceFrame isMouthOpen_faceFrame)
     (simp add: faceFrame_def exactArith_def)

text \<open>
  C9. For a frame with the four landmarks and a face height that does not pass the test
  \<^verbatim>\<open>=== 0\<close>, the frame is classified as open exactly when the distance between the lips
  divided by the distance between forehead and chin is greater than the threshold; each
  distance is the square root of the sum of the squared coordinate differences, and
  subtraction, square, sum, root, quotient and comparison are the arithmetic's. The
  comparison is strict: in an arithmetic in which no number is greater than itself, with
  the threshold equal to that quotient the frame is classified as closed. In exact
  arithmetic the distance is the Euclidean distance.
\<close>

theorem C9_open_iff_ratio_above_threshold:
  assumes "lm 13 = Some upperLipBottom" and "lm 14 = Some lowerLipTop"
    and "lm 10 = Some forehead" and "lm 152 = Some chin"
    and "\<not> num_is_zero ar (calculateDistance ar forehead chin)"
  shows "(isMouthOpen ar (Some lm) thr \<longleftrightarrow>
            num_gt ar
              (num_div ar
                 (num_sqrt ar
                    (num_add ar
                       (num_add ar
                          (num_pow2 ar (num_sub ar (p_x upperLipBottom) (p_x lowerLipTop)))
                          (num_pow2 ar (num_sub ar (p_y upperLipBottom) (p_y lowerLipTop))))
                       (num_pow2 ar (num_sub ar (p_z upperLipBottom) (p_z lowerLipTop)))))
                 (num_sqrt ar
                    (num_add ar
                       (num_add ar
                          (num_pow2 ar (num_sub ar (p_x forehead) (p_x chin)))
                          (num_pow2 ar (num_sub ar (p_y forehead) (p_y chin))))
                       (num_pow2 ar (num_sub ar (p_z forehead) (p_z chin))))))
              thr)
       \<and> ((\<forall>v. \<not> num_gt ar v v) \<longrightarrow>
            \<not> isMouthOpen ar (Some lm)
                (num_div ar (calculateDistance ar upperLipBottom lowerLipTop)
                            (calculateDistance ar forehead chin)))
       \<and> calculateDistance exactArith p q
           = sqrt ((p_x p - p_x q)\<^sup>2 + (p_y p - p_y q)\<^sup>2 + (p_z p - p_z q)\<^sup>2)"
  using assms
  by (simp add: isMouthOpen_def isMouthOpen_traced_def calculateDistance_def Let_def)
     (simp add: exactArith_def)

theorem C9_open_iff_ratio_above_threshold_witness:
  "faceFrame 1 4 13 = Some \<lparr>p_x = 0, p_y = 0, p_z = 0\<rparr>
   \<and> faceFrame 1 4 14 = Some \<lparr>p_x = 0, p_y = 1, p_z = 0\<rparr>
   \<and> faceFrame 1 4 10 = Some \<lparr>p_x = 0, p_y = 0, p_z = 0\<rparr>
   \<and> faceFrame 1 4 152 = Some \<lparr>p_x = 0, p_y = 4, p_z = 0\<rparr>
   \<and> \<not> num_is_zero exactArith
         (calculateDistance exactArith \<lparr>p_x = 0, p_y = 0, p_z = 0\<rparr> \<lparr>p_x = 0, p_y = 4, p_z = 0\<rparr>)
   \<and> (\<forall>v. \<not> num_gt exactArith v v)
   \<and> num_div exactArith
        (calculateDistance exactArith \<lparr>p_x = 0, p_y = 0, p_z = 0\<rparr> \<lparr>p_x = 0, p_y = 1, p_z = 0\<rparr>)
        (calculateDistance exactArith \<lparr>p_x = 0, p_y = 0, p_z = 0\<rparr> \<lparr>p_x = 0, p_y = 4, p_z = 0\<rparr>)
       = 0.25
   \<and> isMouthOpen exactArith (Some (faceFrame 1 4)) 0.125
   \<and> \<not> isMouthOpen exactArith (Some (faceFrame 1 4)) 0.25"
  using C9_open_iff_ratio_above_threshold [of "faceFrame 1 4"
      "\<lparr>p_x = 0, p_y = 0, p_z = 0\<rparr>" "\<lparr>p_x = 0, p_y = 1, p_z = 0\<rparr>"
      "\<lparr>p_x = 0, p_y = 0, p_z = 0\<rparr>" "\<lparr>p_x = 0, p_y = 4, p_z = 0\<rparr>" exactArith "0.125"]
  by (simp add: isMouthOpen_faceFrame calculateDistance_y_axis)
     (simp add: faceFrame_def exactArith_def)

text \<open>
  C10. The classification depends on the landmarks 13, 14, 10 and 152 only: two frames
  that agree at these four indices are classified alike, for every threshold and
  whatever the arithmetic.
\<close>

theorem C10_reads_four_landmarks_only:
  "lm 13 = lm' 13 \<Longrightarrow> lm 14 = lm' 14 \<Longrightarrow> lm 10 = lm' 10 \<Longrightarrow> lm 152 = lm' 152
   \<Longrightarrow> isMouthOpen ar (Some lm) thr = isMouthOpen ar (Some lm') thr"
  by (simp add: isMouthOpen_def isMouthOpen_traced_def split: option.splits)

theorem C10_reads_four_landmarks_only_witness:
  "faceFrame 0.08 1 13 = ((faceFrame 0.08 1)(0 \<mapsto> \<lparr>p_x = 5, p_y = 5, p_z = 5\<rparr>)) 13
   \<and> faceFrame 0.08 1 14 = ((faceFrame 0.08 1)(0 \<mapsto> \<lparr>p_x = 5, p_y = 5, p_z = 5\<rparr>)) 14
   \<and> faceFrame 0.08 1 10 = ((faceFrame 0.08 1)(0 \<mapsto> \<lparr>p_x = 5, p_y = 5, p_z = 5\<rparr>)) 10
   \<and> faceFrame 0.08 1 152 = ((faceFrame 0.08 1)(0 \<mapsto> \<lparr>p_x = 5, p_y = 5, p_z = 5\<rparr>)) 152
   \<and> faceFrame 0.08 1 0 \<noteq> ((faceFrame 0.08 1)(0 \<mapsto> \<lparr>p_x = 5, p_y = 5, p_z = 5\<rparr>)) 0
   \<and> isMouthOpen exactArith (Some (faceFrame 0.08 1)) 0.05
       = isMouthOpen exactArith
           (Some ((faceFrame 0.08 1)(0 \<mapsto> \<lparr>p_x = 5, p_y = 5, p_z = 5\<rparr>))) 0.05"
  using C10_reads_four_landmarks_only [of "faceFrame 0.08 1"
      "(faceFrame 0.08 1)(0 \<mapsto> \<lparr>p_x = 5, p_y = 5, p_z = 5\<rparr>)" exactArith "0.05"]
  by (simp add: faceFrame_def)

section \<open>State change logic\<close>















text \<open>
  C1, as the code has it. With a delay of 0, a frame whose raw value differs from the
  committed state commits on that frame exactly when the pending state already holds
  that value and the timestamp is not before \<open>lastStateChangeTime\<close>. When the pending
  state does not hold it (as in the initial state), the frame only records the value as
  pending, stamped with the frame's time, and a following frame with the same raw value
  and a timestamp that is not earlier commits.
\<close>

theorem C1_delay_zero_commit:
  assumes "raw \<noteq> isMouthOpenState s"
  shows "(isMouthOpenState (stateChangeLogic 0 raw now s) = raw
            \<longleftrightarrow> pendingState s = raw \<and> lastStateChangeTime s \<le> now)
       \<and> (pendingState s \<noteq> raw \<longrightarrow>
            stateChangeLogic 0 raw now s = s\<lparr>pendingState := raw, lastStateChangeTime := now\<rparr>
            \<and> (\<forall>now'. now \<le> now' \<longrightarrow>
                 isMouthOpenState (stateChangeLogic 0 raw now' (stateChangeLogic 0 raw now s)) = raw))"
  using assms by (auto simp: stateChangeLogic_def Let_def)

theorem C1_delay_zero_commit_witness:
  "True \<noteq> isMouthOpenState (initialState 1000)
   \<and> pendingState (initialState 1000) \<noteq> True
   \<and> isMouthOpenState (stateChangeLogic 0 True 2000 (initialState 1000)) = False
   \<and> stateChangeLogic 0 True 2000 (initialState 1000)
       = (initialState 1000)\<lparr>pendingState := True, lastStateChangeTime := 2000\<rparr>
   \<and> isMouthOpenState
         (stateChangeLogic 0 True 2033 (stateChangeLogic 0 True 2000 (initialState 1000))) = True"
proof -
  have differs: "True \<noteq> isMouthOpenState (initialState 1000)"
    and pending: "pendingState (initialState 1000) \<noteq> True"
    by (simp_all add: initialState_def)
  from C1_delay_zero_commit [OF differs, of 2000] pending differs
  show ?thesis by auto
qed

text \<open>
  C1 as stated fails: in the initial state (committed and pending both false), with
  delay 0, a frame whose raw value is true leaves the committed state false.
\<close>

theorem C1_first_frame_counterexample:
  "True \<noteq> isMouthOpenState (initialState 1000) \<and>
   isMouthOpenState (stateChangeLogic 0 True 2000 (initialState 1000)) = False"
  by (simp add: stateChangeLogic_def initialState_def)






section \<open>Sound alert logic and the whole callback\<close>

lemma lastSoundTime_stateChangeLogic:
  "lastSoundTime (stateChangeLogic d raw now s) = lastSoundTime s"
  by (simp add: stateChangeLogic_def Let_def)

lemma lastSoundTime_debounceRun:
  "lastSoundTime (debounceRun d frames s) = lastSoundTime s"
  by (induction d frames s rule: debounceRun.induct) (simp_all add: lastSoundTime_stateChangeLogic)

lemma soundAlertLogic_played:
  "snd (soundAlertLogic mouthOpen enabled now s)
     = (mouthOpen \<and> enabled \<and> 60 \<le> real_of_int (now - lastSoundTime s) / 1000)"
  by (auto simp: soundAlertLogic_def Let_def)

lemma soundAlertLogic_state:
  "fst (soundAlertLogic mouthOpen enabled now s)
     = (if snd (soundAlertLogic mouthOpen enabled now s) then s\<lparr>lastSoundTime := now\<rparr> else s)"
  by (simp add: soundAlertLogic_def Let_def)

lemma lastSoundTime_onResults:
  "lastSoundTime (fst (onResults ar cfg now res s))
     = (if snd (onResults ar cfg now res s) then now else lastSoundTime s)"
  by (simp add: onResults_def Let_def soundAlertLogic_state soundAlertLogic_played
      lastSoundTime_stateChangeLogic split: option.splits list.splits)

lemma lastSoundTime_onResultsRun:
  "list_all (\<lambda>x. \<not> snd x) (onResultsTrace ar cfg frames s)
     \<Longrightarrow> lastSoundTime (onResultsRun ar cfg frames s) = lastSoundTime s"
  by (induction ar cfg frames s rule: onResultsRun.induct) (simp_all add: lastSoundTime_onResults)

text \<open>
  C2, as the code has it. On a frame with a face, the sound plays exactly when the
  committed state the call started with is true, the sound is enabled and at least 60
  seconds have passed since \<open>lastSoundTime\<close>; the committed state the call leaves is the
  one the state change logic computes. From the initial state, with delay 0, threshold
  0.05, the sound enabled and frames of ratio 0.08: the first frame leaves the committed
  state false and plays nothing, a second frame (not earlier than the first) makes the
  committed state true and plays nothing, a third frame (at 60000 ms or later) plays the
  sound, and a frame 10 seconds after that plays nothing.
\<close>

theorem C2_alert_reads_state_before_update:
  "snd (onResults ar cfg now (Some (landmarks # rest)) s)
     = (isMouthOpenState s \<and> soundEnabled cfg \<and> 60 \<le> real_of_int (now - lastSoundTime s) / 1000)
   \<and> isMouthOpenState (fst (onResults ar cfg now (Some (landmarks # rest)) s))
     = isMouthOpenState
         (stateChangeLogic (delaySeconds cfg) (isMouthOpen ar landmarks (threshold cfg)) now s)
   \<and> (t1 \<le> t2 \<and> 60000 \<le> t3 \<longrightarrow>
       map (\<lambda>(s', played). (isMouthOpenState s', played))
         (onResultsTrace exactArith \<lparr>threshold = 0.05, delaySeconds = 0, soundEnabled = True\<rparr>
           [(t1, Some [Some (faceFrame 0.08 1)]), (t2, Some [Some (faceFrame 0.08 1)]),
            (t3, Some [Some (faceFrame 0.08 1)]), (t3 + 10000, Some [Some (faceFrame 0.08 1)])]
           (initialState t0))
       = [(False, False), (True, False), (True, True), (True, False)])"
  by (auto simp: onResults_def isMouthOpen_faceFrame stateChangeLogic_def soundAlertLogic_def
      initialState_def Let_def)

theorem C2_alert_reads_state_before_update_witness:
  "(1700000000033::int) \<le> 1700000000066 \<and> (60000::int) \<le> 1700000000099
   \<and> map (\<lambda>(s', played). (isMouthOpenState s', played))
         (onResultsTrace exactArith \<lparr>threshold = 0.05, delaySeconds = 0, soundEnabled = True\<rparr>
           [(1700000000033, Some [Some (faceFrame 0.08 1)]),
            (1700000000066, Some [Some (faceFrame 0.08 1)]),
            (1700000000099, Some [Some (faceFrame 0.08 1)]),
            (1700000000099 + 10000, Some [Some (faceFrame 0.08 1)])]
           (initialState 1700000000000))
       = [(False, False), (True, False), (True, True), (True, False)]"
proof -
  have order: "(1700000000033::int) \<le> 1700000000066 \<and> (60000::int) \<le> 1700000000099"
    by simp
  from C2_alert_reads_state_before_update
    [where ?t1.0 = 1700000000033 and ?t2.0 = 1700000000066 and ?t3.0 = 1700000000099
       and ?t0.0 = 1700000000000] order
  show ?thesis by blast
qed

text \<open>
  C2 as stated fails: in its scenario the first frame leaves the committed state false
  (only the pending state becomes true) and plays no sound.
\<close>

theorem C2_first_frame_counterexample:
  "onResultsTrace exactArith \<lparr>threshold = 0.05, delaySeconds = 0, soundEnabled = True\<rparr>
      [(1700000001000, Some [Some (faceFrame 0.08 1)])] (initialState 1700000000000)
   = [(\<lparr>isMouthOpenState = False, pendingState = True,
        lastStateChangeTime = 1700000001000, lastSoundTime = 0\<rparr>, False)]"
  by (simp add: onResults_def isMouthOpen_faceFrame stateChangeLogic_def soundAlertLogic_def
      initialState_def)

text \<open>
  C5, as the code has it. At mount \<open>lastSoundTime\<close> is the timestamp 0. The sound plays
  exactly when the committed state of the closure is true, the sound is enabled and
  \<open>(now - lastSoundTime) / 1000 \<ge> 60\<close>. After any run from the initial state in which no
  sound has played, \<open>lastSoundTime\<close> is still 0, and a frame with the committed state
  true and the sound enabled plays exactly when \<open>now\<close> is at least 60000 ms.
\<close>

theorem C5_first_alert_iff_clock_past_cooldown:
  "lastSoundTime (initialState t0) = 0
   \<and> snd (soundAlertLogic mouthOpen enabled now s)
       = (mouthOpen \<and> enabled \<and> 60 \<le> real_of_int (now - lastSoundTime s) / 1000)
   \<and> (list_all (\<lambda>x. \<not> snd x) (onResultsTrace ar cfg frames (initialState t0))
        \<longrightarrow> lastSoundTime (onResultsRun ar cfg frames (initialState t0)) = 0
          \<and> snd (soundAlertLogic True True now (onResultsRun ar cfg frames (initialState t0)))
              = (60000 \<le> now))"
proof (intro conjI impI)
  show "lastSoundTime (initialState t0) = 0" by (simp add: initialState_def)
  show "snd (soundAlertLogic mouthOpen enabled now s)
       = (mouthOpen \<and> enabled \<and> 60 \<le> real_of_int (now - lastSoundTime s) / 1000)"
    by (rule soundAlertLogic_played)
next
  assume quiet: "list_all (\<lambda>x. \<not> snd x) (onResultsTrace ar cfg frames (initialState t0))"
  from lastSoundTime_onResultsRun [OF quiet]
  show zero: "lastSoundTime (onResultsRun ar cfg frames (initialState t0)) = 0"
    by (simp add: initialState_def)
  show "snd (soundAlertLogic True True now (onResultsRun ar cfg frames (initialState t0)))
          = (60000 \<le> now)"
    unfolding soundAlertLogic_played zero by simp
qed

theorem C5_first_alert_iff_clock_past_cooldown_witness:
  "list_all (\<lambda>x. \<not> snd x)
     (onResultsTrace exactArith \<lparr>threshold = 0.05, delaySeconds = 0, soundEnabled = True\<rparr>
        [(1000, Some [Some (faceFrame 0.08 1)]), (2000, Some [Some (faceFrame 0.08 1)])]
        (initialState 0))
   \<and> lastSoundTime
       (onResultsRun exactArith \<lparr>threshold = 0.05, delaySeconds = 0, soundEnabled = True\<rparr>
          [(1000, Some [Some (faceFrame 0.08 1)]), (2000, Some [Some (faceFrame 0.08 1)])]
          (initialState 0)) = 0
   \<and> snd (soundAlertLogic True True 70000
       (onResultsRun exactArith \<lparr>threshold = 0.05, delaySeconds = 0, soundEnabled = True\<rparr>
          [(1000, Some [Some (faceFrame 0.08 1)]), (2000, Some [Some (faceFrame 0.08 1)])]
          (initialState 0))) = True"
proof -
  have quiet: "list_all (\<lambda>x. \<not> snd x)
     (onResultsTrace exactArith \<lparr>threshold = 0.05, delaySeconds = 0, soundEnabled = True\<rparr>
        [(1000, Some [Some (faceFrame 0.08 1)]), (2000, Some [Some (faceFrame 0.08 1)])]
        (initialState 0))"
    by (simp add: onResults_def isMouthOpen_faceFrame stateChangeLogic_def soundAlertLogic_def
        initialState_def)
  from C5_first_alert_iff_clock_past_cooldown
    [where ?t0.0 = 0 and now = 70000 and ar = exactArith
       and cfg = "\<lparr>threshold = 0.05, delaySeconds = 0, soundEnabled = True\<rparr>"
       and frames = "[(1000, Some [Some (faceFrame 0.08 1)]), (2000, Some [Some (faceFrame 0.08 1)])]"]
    quiet
  show ?thesis by simp
qed

text \<open>
  C5 as stated fails: from the initial state at time 0, the frame at 3000 ms runs with
  the committed state true and the sound enabled, no sound has played before, and it
  plays nothing, since 3000 ms is less than 60 seconds after the timestamp 0.
\<close>

theorem C5_early_clock_counterexample:
  "map (\<lambda>(s', played). (isMouthOpenState s', played))
     (onResultsTrace exactArith \<lparr>threshold = 0.05, delaySeconds = 0, soundEnabled = True\<rparr>
        [(1000, Some [Some (faceFrame 0.08 1)]), (2000, Some [Some (faceFrame 0.08 1)]),
         (3000, Some [Some (faceFrame 0.08 1)])]
        (initialState 0))
   = [(False, False), (True, False), (True, False)]"
  by (simp add: onResults_def isMouthOpen_faceFrame stateChangeLogic_def soundAlertLogic_def
      initialState_def)

text \<open>
  C6, as the code has it. With the sound enabled, when the cooldown of 60 seconds has
  passed at the first of two frames that run with the committed state true, the first
  plays the sound; a second such frame 30 seconds later does not (one sound in all) and
  one 61 seconds later does (two sounds), also when any frames of the state change logic
  run in between. The state change logic never changes \<open>lastSoundTime\<close>, and a call of
  the callback changes it only when it plays the sound, to the time of that call.
\<close>

theorem C6_cooldown_between_alerts:
  assumes "60 \<le> real_of_int (t - lastSoundTime s) / 1000"
  shows "soundAlertTrace True [(True, t), (True, t + 30000)] s = [True, False]
       \<and> soundAlertTrace True [(True, t), (True, t + 61000)] s = [True, True]
       \<and> snd (soundAlertLogic True True (t + 30000)
               (debounceRun d frames (fst (soundAlertLogic True True t s)))) = False
       \<and> snd (soundAlertLogic True True (t + 61000)
               (debounceRun d frames (fst (soundAlertLogic True True t s)))) = True
       \<and> lastSoundTime (debounceRun d frames s') = lastSoundTime s'
       \<and> lastSoundTime (fst (onResults ar cfg now res s'))
           = (if snd (onResults ar cfg now res s') then now else lastSoundTime s')"
proof -
  have fired: "snd (soundAlertLogic True True t s)"
    "fst (soundAlertLogic True True t s) = s\<lparr>lastSoundTime := t\<rparr>"
    using assms by (simp_all add: soundAlertLogic_def)
  show ?thesis
    using fired
    by (simp add: soundAlertLogic_played lastSoundTime_debounceRun lastSoundTime_onResults)
qed

theorem C6_cooldown_between_alerts_witness:
  "(60::real) \<le> real_of_int (100000 - lastSoundTime (initialState 0)) / 1000
   \<and> soundAlertTrace True [(True, 100000), (True, 100000 + 30000)] (initialState 0) = [True, False]
   \<and> soundAlertTrace True [(True, 100000), (True, 100000 + 61000)] (initialState 0) = [True, True]
   \<and> snd (soundAlertLogic True True (100000 + 30000)
        (debounceRun 2 [(True, 110000), (True, 113000), (False, 114000), (False, 117000)]
           (fst (soundAlertLogic True True 100000 (initialState 0))))) = False"
proof -
  have ready: "(60::real) \<le> real_of_int (100000 - lastSoundTime (initialState 0)) / 1000"
    by (simp add: initialState_def)
  from C6_cooldown_between_alerts [OF ready, where d = 2
      and frames = "[(True, 110000), (True, 113000), (False, 114000), (False, 117000)]"
      and s' = "initialState 0" and ar = exactArith
      and cfg = "\<lparr>threshold = 0.05, delaySeconds = 0, soundEnabled = True\<rparr>"
      and now = 0 and res = None] ready
  show ?thesis by simp
qed

text \<open>
  C6 as stated fails: in the state the callback reaches after playing the sound at
  100000 ms, two frames with the committed state true that are 30 seconds apart (110000
  and 140000) play no sound at all, and two that are 61 seconds apart (110000 and
  171000) play one.
\<close>

theorem C6_recent_alert_counterexample:
  "soundAlertTrace True [(True, 110000), (True, 140000)]
      \<lparr>isMouthOpenState = True, pendingState = True,
       lastStateChangeTime = 100000, lastSoundTime = 100000\<rparr> = [False, False]
   \<and> soundAlertTrace True [(True, 110000), (True, 171000)]
      \<lparr>isMouthOpenState = True, pendingState = True,
       lastStateChangeTime = 100000, lastSoundTime = 100000\<rparr> = [False, True]
   \<and> onResultsRun exactArith \<lparr>threshold = 0.05, delaySeconds = 0, soundEnabled = True\<rparr>
        [(98000, Some [Some (faceFrame 0.08 1)]), (99000, Some [Some (faceFrame 0.08 1)]),
         (100000, Some [Some (faceFrame 0.08 1)])] (initialState 0)
      = \<lparr>isMouthOpenState = True, pendingState = True,
         lastStateChangeTime = 100000, lastSoundTime = 100000\<rparr>"
  by (simp add: onResults_def isMouthOpen_faceFrame stateChangeLogic_def soundAlertLogic_def
      initialState_def)

end
